theory Spec2Isabelle
  imports Main
begin

section \<open>Job validation routes (x-pack/plugins/ml/server/routes/job\_validation.ts)\<close>

subsection \<open>Values, promises and responses\<close>

text \<open>
  Request bodies, model results and thrown values are JavaScript values. An object is
  its list of own properties, in order.
\<close>

datatype jsval =
    JUndefined
  | JNull
  | JBool bool
  | JNum int
  | JStr string
  | JArr "jsval list"
  | JObj "(string \<times> jsval) list"

text \<open>
  Reading a property (\<^verbatim>\<open>payload.query\<close>, \<^verbatim>\<open>request.body.job\<close>, a destructuring
  pattern): an own property of an object, \<^verbatim>\<open>undefined\<close> when the object has none of
  that name or the value is a primitive. On \<^verbatim>\<open>undefined\<close> and \<^verbatim>\<open>null\<close>
  JavaScript throws a TypeError instead; \<open>nullish\<close> is that test, and every read below
  is guarded by it.
\<close>

definition nullish :: "jsval \<Rightarrow> bool" where
  "nullish v = (v = JUndefined \<or> v = JNull)"

definition TypeError :: jsval where
  "TypeError = JObj [(''name'', JStr ''TypeError'')]"

fun getProp :: "jsval \<Rightarrow> string \<Rightarrow> jsval" where
  "getProp (JObj kvs) k = (case map_of kvs k of Some v \<Rightarrow> v | None \<Rightarrow> JUndefined)"
| "getProp v k = JUndefined"

text \<open>
  What calling an asynchronous function gives the caller: the call itself throws before
  any promise exists (\<open>Threw\<close>), or it returns a promise that is later fulfilled
  (\<open>Resolved\<close>) or rejected (\<open>Rejected\<close>). Under a plain \<^verbatim>\<open>await\<close> inside
  \<^verbatim>\<open>try\<close> the last two ways of failing are the same; with \<^verbatim>\<open>.catch\<close> attached to the
  promise they are not.
\<close>

datatype outcome = Resolved jsval | Rejected jsval | Threw jsval

text \<open>
  Modelled from the spec: the response factory handed to every handler
  (\<^verbatim>\<open>response.ok\<close>, \<^verbatim>\<open>response.customError\<close>) belongs to the platform core and is not
  among the sources. \<^verbatim>\<open>ok\<close> is the 200 response carrying the given body;
  \<^verbatim>\<open>customError\<close> is the response with the status code and body of its options.
\<close>

record CustomHttpResponseOptions =
  statusCode :: nat
  body :: jsval

record KibanaResponse =
  status :: nat
  payload :: jsval

definition response_ok :: "jsval \<Rightarrow> KibanaResponse" where
  "response_ok b = \<lparr>status = 200, payload = b\<rparr>"

definition response_customError :: "CustomHttpResponseOptions \<Rightarrow> KibanaResponse" where
  "response_customError opts = \<lparr>status = statusCode opts, payload = body opts\<rparr>"

text \<open>
  Modelled from the spec: \<^verbatim>\<open>Boom.badRequest\<close> of the @hapi/boom library, the error
  object of an HTTP 400 wrapping the value it is given.
\<close>

datatype Boom = Boom (boom_statusCode: nat) (boom_cause: jsval)

definition Boom_badRequest :: "jsval \<Rightarrow> Boom" where
  "Boom_badRequest e = Boom 400 e"

text \<open>A handler either returns a response or ends by throwing.\<close>

datatype handlerResult = Returned KibanaResponse | Raised Boom

subsection \<open>The imported functions and the route initialisation\<close>

record KibanaRequest =
  requestBody :: jsval
  requestHeaders :: "(string \<times> string) list"

text \<open>
  The model functions of \<^verbatim>\<open>../models\<close> and the helpers of \<^verbatim>\<open>../lib\<close> and
  \<^verbatim>\<open>../client\<close> are imported, not defined, by the routes file: they are parameters
  here. \<open>'c\<close> is the scoped cluster client and \<open>'m\<close> the ML client. A curried import
  such as \<^verbatim>\<open>estimateBucketSpanFactory(client)(body)\<close> is one function of both arguments,
  whose outcome \<open>Threw\<close> covers a throw by either application. The provider of the
  model memory limit takes its eight positional arguments as a list.
\<close>

record ('c, 'm) externals =
  estimateBucketSpanFactory :: "'c \<Rightarrow> jsval \<Rightarrow> outcome"
  calculateModelMemoryLimitProvider :: "'c \<Rightarrow> 'm \<Rightarrow> jsval list \<Rightarrow> outcome"
  validateCardinality :: "'c \<Rightarrow> jsval \<Rightarrow> outcome"
  validateJob :: "'c \<Rightarrow> 'm \<Rightarrow> jsval \<Rightarrow> jsval \<Rightarrow> bool \<Rightarrow> outcome"
  validateDatafeedPreview :: "'m \<Rightarrow> jsval \<Rightarrow> jsval \<Rightarrow> outcome"
  getAuthorizationHeader :: "KibanaRequest \<Rightarrow> jsval"
  wrapError :: "jsval \<Rightarrow> CustomHttpResponseOptions"

text \<open>
  The calls a handler makes to model functions, with their arguments, in order.
\<close>

datatype ('c, 'm) modelCall =
    EstimateBucketSpan 'c jsval
  | CalculateModelMemoryLimit 'c 'm "jsval list"
  | ValidateCardinality 'c jsval
  | ValidateJob 'c 'm jsval jsval bool
  | ValidateDatafeedPreview 'm jsval jsval

record ('c, 'm) handlerContext =
  client :: 'c
  mlClient :: 'm
  request :: KibanaRequest

type_synonym ('c, 'm) handler =
  "('c, 'm) handlerContext \<Rightarrow> handlerResult \<times> ('c, 'm) modelCall list"

datatype schema =
    estimateBucketSpanSchema
  | modelMemoryLimitSchema
  | validateCardinalitySchema
  | validateJobSchema
  | validateDatafeedPreviewSchema

record ('c, 'm) route =
  path :: string
  validateBody :: schema
  tags :: "string list"
  handler :: "('c, 'm) handler"

record MlLicense =
  isSecurityEnabled :: bool

record ('c, 'm) RouteGuard =
  fullLicenseAPIGuard :: "('c, 'm) handler \<Rightarrow> ('c, 'm) handler"

record ('c, 'm) RouteInitialization =
  router :: "('c, 'm) route list"
  mlLicense :: MlLicense
  routeGuard :: "('c, 'm) RouteGuard"

text \<open>\<^verbatim>\<open>router.post(config, handler)\<close> adds one route to the router.\<close>

definition router_post :: "('c, 'm) route \<Rightarrow> ('c, 'm) route list \<Rightarrow> ('c, 'm) route list" where
  "router_post r rs = rs @ [r]"

subsection \<open>The handlers\<close>

text \<open>
  The local function \<^verbatim>\<open>calculateModelMemoryLimit\<close>: destructure the payload, call the
  provider with \<^verbatim>\<open>undefined\<close> in seventh place and the datafeed config last.
\<close>

definition calculateModelMemoryLimitArgs :: "jsval \<Rightarrow> jsval list" where
  "calculateModelMemoryLimitArgs p =
     [getProp p ''analysisConfig'', getProp p ''indexPattern'', getProp p ''query'',
      getProp p ''timeFieldName'', getProp p ''earliestMs'', getProp p ''latestMs'',
      JUndefined, getProp p ''datafeedConfig'']"

definition calculateModelMemoryLimit ::
  "('c, 'm) externals \<Rightarrow> 'c \<Rightarrow> 'm \<Rightarrow> jsval \<Rightarrow> outcome \<times> ('c, 'm) modelCall list" where
  "calculateModelMemoryLimit imp c m p =
     (if nullish p then (Threw TypeError, [])
      else (calculateModelMemoryLimitProvider imp c m (calculateModelMemoryLimitArgs p),
            [CalculateModelMemoryLimit c m (calculateModelMemoryLimitArgs p)]))"

text \<open>
  \<^verbatim>\<open>try { const resp = await f(...); return response.ok({ body: resp }) }
  catch (e) { return response.customError(wrapError(e)) }\<close>, the shape shared by four
  of the five handlers.
\<close>

definition okOrCustomError :: "('c, 'm) externals \<Rightarrow> outcome \<Rightarrow> handlerResult" where
  "okOrCustomError imp out =
     (case out of
        Resolved resp \<Rightarrow> Returned (response_ok resp)
      | Rejected e \<Rightarrow> Returned (response_customError (wrapError imp e))
      | Threw e \<Rightarrow> Returned (response_customError (wrapError imp e)))"

text \<open>
  POST /api/ml/validate/estimate\_bucket\_span. \<^verbatim>\<open>errorResp\<close> starts undefined; the
  \<^verbatim>\<open>.catch\<close> on the promise sets it and leaves \<^verbatim>\<open>resp\<close> undefined; the outer
  \<^verbatim>\<open>catch\<close> sees only what is thrown before the promise exists.
\<close>

definition estimateBucketSpanHandler :: "('c, 'm) externals \<Rightarrow> ('c, 'm) handler" where
  "estimateBucketSpanHandler imp ctx =
     (let b = requestBody (request ctx);
          calls = [EstimateBucketSpan (client ctx) b]
      in case estimateBucketSpanFactory imp (client ctx) b of
           Threw e \<Rightarrow> (Raised (Boom_badRequest e), calls)
         | Rejected error \<Rightarrow>
             (let errorResp = JObj [(''error'', JBool True), (''message'', error)];
                  resp = JUndefined
              in (Returned (response_ok (if errorResp \<noteq> JUndefined then errorResp else resp)),
                  calls))
         | Resolved resp \<Rightarrow>
             (let errorResp = JUndefined
              in (Returned (response_ok (if errorResp \<noteq> JUndefined then errorResp else resp)),
                  calls)))"

text \<open>POST /api/ml/validate/calculate\_model\_memory\_limit.\<close>

definition calculateModelMemoryLimitHandler :: "('c, 'm) externals \<Rightarrow> ('c, 'm) handler" where
  "calculateModelMemoryLimitHandler imp ctx =
     (let (out, calls) =
            calculateModelMemoryLimit imp (client ctx) (mlClient ctx) (requestBody (request ctx))
      in (okOrCustomError imp out, calls))"

text \<open>POST /api/ml/validate/cardinality.\<close>

definition validateCardinalityHandler :: "('c, 'm) externals \<Rightarrow> ('c, 'm) handler" where
  "validateCardinalityHandler imp ctx =
     (let b = requestBody (request ctx)
      in (okOrCustomError imp (validateCardinality imp (client ctx) b),
          [ValidateCardinality (client ctx) b]))"

text \<open>
  POST /api/ml/validate/job. The last argument of the model function is
  \<^verbatim>\<open>mlLicense.isSecurityEnabled() === false\<close>.
\<close>

definition validateJobHandler :: "('c, 'm) externals \<Rightarrow> MlLicense \<Rightarrow> ('c, 'm) handler" where
  "validateJobHandler imp lic ctx =
     (let b = requestBody (request ctx);
          auth = getAuthorizationHeader imp (request ctx);
          flag = (isSecurityEnabled lic = False)
      in (okOrCustomError imp (validateJob imp (client ctx) (mlClient ctx) b auth flag),
          [ValidateJob (client ctx) (mlClient ctx) b auth flag]))"

text \<open>
  POST /api/ml/validate/datafeed\_preview. The arguments are evaluated left to right:
  the authorization header first, then \<^verbatim>\<open>request.body.job\<close>, which throws on a body
  that is \<^verbatim>\<open>undefined\<close> or \<^verbatim>\<open>null\<close>.
\<close>

definition validateDatafeedPreviewHandler :: "('c, 'm) externals \<Rightarrow> ('c, 'm) handler" where
  "validateDatafeedPreviewHandler imp ctx =
     (let auth = getAuthorizationHeader imp (request ctx);
          b = requestBody (request ctx)
      in if nullish b then (okOrCustomError imp (Threw TypeError), [])
         else (okOrCustomError imp (validateDatafeedPreview imp (mlClient ctx) auth (getProp b ''job'')),
               [ValidateDatafeedPreview (mlClient ctx) auth (getProp b ''job'')]))"

subsection \<open>Registration\<close>

definition jobValidationRoutes ::
  "('c, 'm) externals \<Rightarrow> ('c, 'm) RouteInitialization \<Rightarrow> ('c, 'm) route list" where
  "jobValidationRoutes imp init =
     (let guard = fullLicenseAPIGuard (routeGuard init);
          r0 = router init;
          r1 = router_post
                 \<lparr>path = ''/api/ml/validate/estimate_bucket_span'',
                  validateBody = estimateBucketSpanSchema,
                  tags = [''access:ml:canCreateJob''],
                  handler = guard (estimateBucketSpanHandler imp)\<rparr> r0;
          r2 = router_post
                 \<lparr>path = ''/api/ml/validate/calculate_model_memory_limit'',
                  validateBody = modelMemoryLimitSchema,
                  tags = [''access:ml:canCreateJob''],
                  handler = guard (calculateModelMemoryLimitHandler imp)\<rparr> r1;
          r3 = router_post
                 \<lparr>path = ''/api/ml/validate/cardinality'',
                  validateBody = validateCardinalitySchema,
                  tags = [''access:ml:canCreateJob''],
                  handler = guard (validateCardinalityHandler imp)\<rparr> r2;
          r4 = router_post
                 \<lparr>path = ''/api/ml/validate/job'',
                  validateBody = validateJobSchema,
                  tags = [''access:ml:canCreateJob''],
                  handler = guard (validateJobHandler imp (mlLicense init))\<rparr> r3;
          r5 = router_post
                 \<lparr>path = ''/api/ml/validate/datafeed_preview'',
                  validateBody = validateDatafeedPreviewSchema,
                  tags = [''access:ml:canCreateJob''],
                  handler = guard (validateDatafeedPreviewHandler imp)\<rparr> r4
      in r5)"

text \<open>The routes one call of \<open>jobValidationRoutes\<close> adds, and the one at a path.\<close>

definition registered ::
  "('c, 'm) externals \<Rightarrow> ('c, 'm) RouteInitialization \<Rightarrow> ('c, 'm) route list" where
  "registered imp init = drop (length (router init)) (jobValidationRoutes imp init)"

definition routeAt :: "string \<Rightarrow> ('c, 'm) route list \<Rightarrow> ('c, 'm) route option" where
  "routeAt p rs = find (\<lambda>r. path r = p) rs"

text \<open>
  The handler registered at a path, applied to a request context: \<open>None\<close> when no
  route has the path, else the handler's result and the model calls it made.
\<close>

definition runRoute ::
  "string \<Rightarrow> ('c, 'm) route list \<Rightarrow> ('c, 'm) handlerContext \<Rightarrow>
     (handlerResult \<times> ('c, 'm) modelCall list) option" where
  "runRoute p rs ctx = (case routeAt p rs of None \<Rightarrow> None | Some r \<Rightarrow> Some (handler r ctx))"

text \<open>
  The value that a \<^verbatim>\<open>catch\<close> around an awaited call receives, if the call fails.
\<close>

fun failure :: "outcome \<Rightarrow> jsval option" where
  "failure (Resolved v) = None"
| "failure (Rejected e) = Some e"
| "failure (Threw e) = Some e"

text \<open>
  Modelled from the spec: the result of \<^verbatim>\<open>calculateModelMemoryLimitProvider\<close>
  (\<^verbatim>\<open>../models/calculate_model_memory_limit\<close>, not among the sources) is an object
  \<^verbatim>\<open>{modelMemoryLimit: string}\<close>.
\<close>

fun modelMemoryLimitShape :: "jsval \<Rightarrow> bool" where
  "modelMemoryLimitShape (JObj kvs) =
     (case map_of kvs ''modelMemoryLimit'' of Some (JStr s) \<Rightarrow> True | _ \<Rightarrow> False)"
| "modelMemoryLimitShape v = False"

text \<open>
  Modelled from the spec: the platform router that serves a registered route is not
  among the sources. By the spec it validates the request body against the route's
  schema and answers HTTP 400 on malformed input, and hard errors (a malformed payload
  or a thrown exception) are mapped to HTTP 400: a handler that ends by throwing a Boom
  error is answered with that error's status code, one that returns a response with
  the response's. What a schema accepts is not among the sources either and is the
  parameter \<open>conforms\<close>. \<open>answerStatus\<close> is the status code of the HTTP answer.
\<close>

definition answerStatus ::
  "(schema \<Rightarrow> jsval \<Rightarrow> bool) \<Rightarrow> ('c, 'm) route \<Rightarrow> ('c, 'm) handlerContext \<Rightarrow> nat" where
  "answerStatus conforms r ctx =
     (if \<not> conforms (validateBody r) (requestBody (request ctx)) then 400
      else case fst (handler r ctx) of
             Returned resp \<Rightarrow> status resp
           | Raised b \<Rightarrow> boom_statusCode b)"

definition serve ::
  "(schema \<Rightarrow> jsval \<Rightarrow> bool) \<Rightarrow> string \<Rightarrow> ('c, 'm) route list \<Rightarrow>
     ('c, 'm) handlerContext \<Rightarrow> nat option" where
  "serve conforms p rs ctx =
     (case routeAt p rs of None \<Rightarrow> None | Some r \<Rightarrow> Some (answerStatus conforms r ctx))"

section \<open>The detection rule ``Disable Windows Firewall Rules via Netsh''\<close>

text \<open>
  The rule is a JSON document whose \<^verbatim>\<open>query\<close> is written in EQL. An event carries the
  fields the query reads; \<^verbatim>\<open>event.type\<close> and \<^verbatim>\<open>process.args\<close> are multi-valued.
\<close>

record event =
  event_category :: string
  event_type :: "string list"
  process_name :: string
  process_args :: "string list"

text \<open>The fields \<^verbatim>\<open>event.type\<close>, \<^verbatim>\<open>process.name\<close> and \<^verbatim>\<open>process.args\<close>.\<close>

datatype field = EventType | ProcessName | ProcessArgs

fun fieldValues :: "event \<Rightarrow> field \<Rightarrow> string list" where
  "fieldValues ev EventType = event_type ev"
| "fieldValues ev ProcessName = [process_name ev]"
| "fieldValues ev ProcessArgs = process_args ev"

text \<open>
  The two comparisons of the query. \<^verbatim>\<open>field in ("a", "b")\<close> is case-sensitive
  membership. \<^verbatim>\<open>field : "pattern"\<close> is case-insensitive equality (the patterns of this
  rule contain no wildcard). On a multi-valued field either holds when some value
  satisfies it.
\<close>

definition toLower :: "char \<Rightarrow> char" where
  "toLower c =
     (case map_of (zip ''ABCDEFGHIJKLMNOPQRSTUVWXYZ'' ''abcdefghijklmnopqrstuvwxyz'') c of
        Some l \<Rightarrow> l
      | None \<Rightarrow> c)"

definition fieldIn :: "event \<Rightarrow> field \<Rightarrow> string list \<Rightarrow> bool" where
  "fieldIn ev f vs = list_ex (\<lambda>x. x \<in> set vs) (fieldValues ev f)"

definition fieldLike :: "event \<Rightarrow> field \<Rightarrow> string \<Rightarrow> bool" where
  "fieldLike ev f pat = list_ex (\<lambda>x. map toLower x = map toLower pat) (fieldValues ev f)"

text \<open>
  The condition of the query as it is written, left to right: comparisons, parenthesised
  groups and the keywords between them. \<open>evalSeq\<close> reads it with the precedence of
  EQL, \<^verbatim>\<open>and\<close> binding tighter than \<^verbatim>\<open>or\<close>: \<open>cur\<close> is the value of the
  conjunction being read, and an \<^verbatim>\<open>or\<close> closes it.
\<close>

datatype token =
    In field "string list"
  | Like field string
  | Paren "token list"
  | AND
  | OR

fun evalSeq :: "event \<Rightarrow> token list \<Rightarrow> bool \<Rightarrow> bool" where
  "evalSeq ev [] cur = cur"
| "evalSeq ev (OR # ts) cur = (cur \<or> evalSeq ev ts True)"
| "evalSeq ev (AND # ts) cur = evalSeq ev ts cur"
| "evalSeq ev (In f vs # ts) cur = evalSeq ev ts (cur \<and> fieldIn ev f vs)"
| "evalSeq ev (Like f pat # ts) cur = evalSeq ev ts (cur \<and> fieldLike ev f pat)"
| "evalSeq ev (Paren g # ts) cur = evalSeq ev ts (cur \<and> evalSeq ev g True)"

text \<open>
  \<^verbatim>\<open>process where ...\<close>: the event category and the condition.
\<close>

record eqlQuery =
  category :: string
  condition :: "token list"

record detectionRule =
  description :: string
  language :: string
  name :: string
  query :: eqlQuery

text \<open>
  The rule document (the fields of it that matter here). Its query is
  \<^verbatim>\<open>process where event.type in ("start", "process_started") and
  process.name : "netsh.exe" and
  (process.args : "disable" and process.args : "firewall" and process.args : "set") or
  (process.args : "advfirewall" and process.args : "off" and process.args : "state")\<close>
\<close>

definition netshRule :: detectionRule where
  "netshRule =
     \<lparr>description = ''Identifies use of the netsh.exe to disable or weaken the local firewall. Attackers will use this command line tool to disable the firewall during troubleshooting or to enable network mobility.'',
      language = ''eql'',
      name = ''Disable Windows Firewall Rules via Netsh'',
      query =
        \<lparr>category = ''process'',
         condition =
           [In EventType [''start'', ''process_started''], AND,
            Like ProcessName ''netsh.exe'', AND,
            Paren [Like ProcessArgs ''disable'', AND, Like ProcessArgs ''firewall'', AND,
                   Like ProcessArgs ''set''], OR,
            Paren [Like ProcessArgs ''advfirewall'', AND, Like ProcessArgs ''off'', AND,
                   Like ProcessArgs ''state'']]\<rparr>\<rparr>"

text \<open>An event matches the rule when its category is the query's and the condition holds.\<close>

definition ruleMatches :: "detectionRule \<Rightarrow> event \<Rightarrow> bool" where
  "ruleMatches r ev =
     (event_category ev = category (query r) \<and> evalSeq ev (condition (query r)) True)"

section \<open>Sample environment\<close>

text \<open>
  A concrete environment for the closed instances below: every model function settles
  the same given way, \<^verbatim>\<open>wrapError\<close> makes a 500 of the error, and the guard answers 403
  without running the handler when the licence is not a full one.
\<close>

abbreviation sampleExternals :: "outcome \<Rightarrow> (unit, unit) externals" where
  "sampleExternals out \<equiv>
     \<lparr>estimateBucketSpanFactory = \<lambda>c b. out,
      calculateModelMemoryLimitProvider = \<lambda>c m args. out,
      validateCardinality = \<lambda>c b. out,
      validateJob = \<lambda>c m b auth flag. out,
      validateDatafeedPreview = \<lambda>m auth job. out,
      getAuthorizationHeader = \<lambda>r. JObj [],
      wrapError = \<lambda>e. \<lparr>statusCode = 500, body = e\<rparr>\<rparr>"

abbreviation sampleInit :: "bool \<Rightarrow> (unit, unit) RouteInitialization" where
  "sampleInit licensed \<equiv>
     \<lparr>router = [],
      mlLicense = \<lparr>isSecurityEnabled = True\<rparr>,
      routeGuard = \<lparr>fullLicenseAPIGuard =
        \<lambda>h ctx. if licensed then h ctx
                else (Returned \<lparr>status = 403, payload = JUndefined\<rparr>, [])\<rparr>\<rparr>"

abbreviation sampleContext :: "jsval \<Rightarrow> (unit, unit) handlerContext" where
  "sampleContext b \<equiv>
     \<lparr>client = (), mlClient = (), request = \<lparr>requestBody = b, requestHeaders = []\<rparr>\<rparr>"

section \<open>Properties of the job validation routes\<close>

subsection \<open>Registration and the single handlers\<close>

lemma registered_eq:
  "registered imp init =
     [\<lparr>path = ''/api/ml/validate/estimate_bucket_span'',
       validateBody = estimateBucketSpanSchema,
       tags = [''access:ml:canCreateJob''],
       handler = fullLicenseAPIGuard (routeGuard init) (estimateBucketSpanHandler imp)\<rparr>,
      \<lparr>path = ''/api/ml/validate/calculate_model_memory_limit'',
       validateBody = modelMemoryLimitSchema,
       tags = [''access:ml:canCreateJob''],
       handler = fullLicenseAPIGuard (routeGuard init) (calculateModelMemoryLimitHandler imp)\<rparr>,
      \<lparr>path = ''/api/ml/validate/cardinality'',
       validateBody = validateCardinalitySchema,
       tags = [''access:ml:canCreateJob''],
       handler = fullLicenseAPIGuard (routeGuard init) (validateCardinalityHandler imp)\<rparr>,
      \<lparr>path = ''/api/ml/validate/job'',
       validateBody = validateJobSchema,
       tags = [''access:ml:canCreateJob''],
       handler = fullLicenseAPIGuard (routeGuard init) (validateJobHandler imp (mlLicense init))\<rparr>,
      \<lparr>path = ''/api/ml/validate/datafeed_preview'',
       validateBody = validateDatafeedPreviewSchema,
       tags = [''access:ml:canCreateJob''],
       handler = fullLicenseAPIGuard (routeGuard init) (validateDatafeedPreviewHandler imp)\<rparr>]"
  by (simp add: registered_def jobValidationRoutes_def router_post_def Let_def)

lemma runRoute_registered:
  "runRoute ''/api/ml/validate/estimate_bucket_span'' (registered imp init) ctx =
     Some (fullLicenseAPIGuard (routeGuard init) (estimateBucketSpanHandler imp) ctx)"
  "runRoute ''/api/ml/validate/calculate_model_memory_limit'' (registered imp init) ctx =
     Some (fullLicenseAPIGuard (routeGuard init) (calculateModelMemoryLimitHandler imp) ctx)"
  "runRoute ''/api/ml/validate/cardinality'' (registered imp init) ctx =
     Some (fullLicenseAPIGuard (routeGuard init) (validateCardinalityHandler imp) ctx)"
  "runRoute ''/api/ml/validate/job'' (registered imp init) ctx =
     Some (fullLicenseAPIGuard (routeGuard init) (validateJobHandler imp (mlLicense init)) ctx)"
  "runRoute ''/api/ml/validate/datafeed_preview'' (registered imp init) ctx =
     Some (fullLicenseAPIGuard (routeGuard init) (validateDatafeedPreviewHandler imp) ctx)"
  by (simp_all add: runRoute_def routeAt_def registered_eq)

lemma estimateBucketSpanHandler_Rejected:
  "estimateBucketSpanFactory imp (client ctx) (requestBody (request ctx)) = Rejected message \<Longrightarrow>
   estimateBucketSpanHandler imp ctx =
     (Returned (response_ok (JObj [(''error'', JBool True), (''message'', message)])),
      [EstimateBucketSpan (client ctx) (requestBody (request ctx))])"
  by (simp add: estimateBucketSpanHandler_def Let_def)

lemma estimateBucketSpanHandler_Threw:
  "estimateBucketSpanFactory imp (client ctx) (requestBody (request ctx)) = Threw e \<Longrightarrow>
   estimateBucketSpanHandler imp ctx =
     (Raised (Boom_badRequest e), [EstimateBucketSpan (client ctx) (requestBody (request ctx))])"
  by (simp add: estimateBucketSpanHandler_def Let_def)

lemma estimateBucketSpanHandler_Resolved:
  "estimateBucketSpanFactory imp (client ctx) (requestBody (request ctx)) = Resolved v \<Longrightarrow>
   estimateBucketSpanHandler imp ctx =
     (Returned (response_ok v), [EstimateBucketSpan (client ctx) (requestBody (request ctx))])"
  by (simp add: estimateBucketSpanHandler_def Let_def)

lemma okOrCustomError_failure:
  "failure out = Some e \<Longrightarrow>
   okOrCustomError imp out = Returned (response_customError (wrapError imp e))"
  by (cases out) (simp_all add: okOrCustomError_def)

lemma okOrCustomError_Resolved:
  "okOrCustomError imp (Resolved v) = Returned (response_ok v)"
  by (simp add: okOrCustomError_def)

lemma serve_estimate_bucket_span:
  "serve conforms ''/api/ml/validate/estimate_bucket_span'' (registered imp init) ctx =
     Some (if \<not> conforms estimateBucketSpanSchema (requestBody (request ctx)) then 400
           else case fst (fullLicenseAPIGuard (routeGuard init) (estimateBucketSpanHandler imp) ctx) of
                  Returned resp \<Rightarrow> status resp
                | Raised b \<Rightarrow> boom_statusCode b)"
  by (simp add: serve_def routeAt_def registered_eq answerStatus_def)

subsection \<open>The estimate\_bucket\_span route\<close>

text \<open>
  Claim C1. A request to POST /api/ml/validate/estimate\_bucket\_span that the licence
  guard lets through, and whose estimation promise is rejected with some value
  \<open>message\<close>, is answered with HTTP 200 and the body \<^verbatim>\<open>{error: true, message}\<close>;
  the estimator was called once, with the client and the request body. The body is
  arbitrary here, so this holds in particular for every body that passes
  \<^verbatim>\<open>estimateBucketSpanSchema\<close>.
\<close>

theorem estimate_bucket_span_soft_failure:
  assumes rejected:
      "estimateBucketSpanFactory imp (client ctx) (requestBody (request ctx)) = Rejected message"
    and licensed: "\<forall>h. fullLicenseAPIGuard (routeGuard init) h ctx = h ctx"
  shows "runRoute ''/api/ml/validate/estimate_bucket_span'' (registered imp init) ctx =
           Some (Returned \<lparr>status = 200,
                           payload = JObj [(''error'', JBool True), (''message'', message)]\<rparr>,
                 [EstimateBucketSpan (client ctx) (requestBody (request ctx))])"
  using licensed
  by (simp add: runRoute_registered estimateBucketSpanHandler_Rejected [OF rejected] response_ok_def)

theorem estimate_bucket_span_soft_failure_witness:
  "runRoute ''/api/ml/validate/estimate_bucket_span''
     (registered (sampleExternals (Rejected (JStr ''no estimate''))) (sampleInit True))
     (sampleContext (JObj [(''index'', JStr ''logs'')])) =
   Some (Returned \<lparr>status = 200,
                   payload = JObj [(''error'', JBool True), (''message'', JStr ''no estimate'')]\<rparr>,
         [EstimateBucketSpan () (JObj [(''index'', JStr ''logs'')])])"
  using estimate_bucket_span_soft_failure
    [of "sampleExternals (Rejected (JStr ''no estimate''))"
        "sampleContext (JObj [(''index'', JStr ''logs'')])"
        "JStr ''no estimate''" "sampleInit True"]
  by simp

text \<open>
  Claim C2. A request to POST /api/ml/validate/estimate\_bucket\_span whose body the
  route's schema does not accept is answered with HTTP 400, whatever the estimator would
  do. And when the estimation code throws a value \<open>e\<close> for a request that the licence
  guard lets through, the handler ends by throwing \<^verbatim>\<open>Boom.badRequest(e)\<close> and the
  answer is HTTP 400. The handler's part is the source's; the router's part (validating
  the body, answering a thrown Boom error with its status code) is the model of the
  spec above.
\<close>

theorem estimate_bucket_span_hard_failure:
  "(\<not> conforms estimateBucketSpanSchema (requestBody (request ctx)) \<longrightarrow>
      serve conforms ''/api/ml/validate/estimate_bucket_span'' (registered imp init) ctx =
        Some 400)
   \<and> (estimateBucketSpanFactory imp (client ctx) (requestBody (request ctx)) = Threw e
        \<and> (\<forall>h. fullLicenseAPIGuard (routeGuard init) h ctx = h ctx) \<longrightarrow>
      map_option fst
        (runRoute ''/api/ml/validate/estimate_bucket_span'' (registered imp init) ctx) =
        Some (Raised (Boom_badRequest e))
      \<and> serve conforms ''/api/ml/validate/estimate_bucket_span'' (registered imp init) ctx =
        Some 400)"
proof (intro conjI impI)
  assume "\<not> conforms estimateBucketSpanSchema (requestBody (request ctx))"
  then show "serve conforms ''/api/ml/validate/estimate_bucket_span'' (registered imp init) ctx =
        Some 400"
    by (simp add: serve_estimate_bucket_span)
next
  assume h: "estimateBucketSpanFactory imp (client ctx) (requestBody (request ctx)) = Threw e
        \<and> (\<forall>h. fullLicenseAPIGuard (routeGuard init) h ctx = h ctx)"
  then have run: "fullLicenseAPIGuard (routeGuard init) (estimateBucketSpanHandler imp) ctx =
      (Raised (Boom_badRequest e), [EstimateBucketSpan (client ctx) (requestBody (request ctx))])"
    by (simp add: estimateBucketSpanHandler_Threw)
  show "map_option fst
        (runRoute ''/api/ml/validate/estimate_bucket_span'' (registered imp init) ctx) =
        Some (Raised (Boom_badRequest e))"
    by (simp add: runRoute_registered run)
  show "serve conforms ''/api/ml/validate/estimate_bucket_span'' (registered imp init) ctx =
        Some 400"
    by (simp add: serve_estimate_bucket_span run Boom_badRequest_def)
qed

theorem estimate_bucket_span_hard_failure_witness:
  "serve (\<lambda>s b. case b of JObj kvs \<Rightarrow> True | _ \<Rightarrow> False)
     ''/api/ml/validate/estimate_bucket_span''
     (registered (sampleExternals (Resolved (JStr ''1h''))) (sampleInit True))
     (sampleContext (JNum 7)) = Some 400
   \<and> map_option fst (runRoute ''/api/ml/validate/estimate_bucket_span''
       (registered (sampleExternals (Threw (JStr ''Invalid formConfig''))) (sampleInit True))
       (sampleContext (JObj [(''index'', JNum 7)]))) =
     Some (Raised (Boom_badRequest (JStr ''Invalid formConfig'')))
   \<and> serve (\<lambda>s b. case b of JObj kvs \<Rightarrow> True | _ \<Rightarrow> False)
     ''/api/ml/validate/estimate_bucket_span''
     (registered (sampleExternals (Threw (JStr ''Invalid formConfig''))) (sampleInit True))
     (sampleContext (JObj [(''index'', JNum 7)])) = Some 400"
proof (intro conjI)
  show "serve (\<lambda>s b. case b of JObj kvs \<Rightarrow> True | _ \<Rightarrow> False)
     ''/api/ml/validate/estimate_bucket_span''
     (registered (sampleExternals (Resolved (JStr ''1h''))) (sampleInit True))
     (sampleContext (JNum 7)) = Some 400"
    using estimate_bucket_span_hard_failure
      [where conforms = "\<lambda>s b. case b of JObj kvs \<Rightarrow> True | _ \<Rightarrow> False"
         and ctx = "sampleContext (JNum 7)"
         and imp = "sampleExternals (Resolved (JStr ''1h''))"
         and init = "sampleInit True", THEN conjunct1]
    by simp
next
  have inst: "map_option fst (runRoute ''/api/ml/validate/estimate_bucket_span''
       (registered (sampleExternals (Threw (JStr ''Invalid formConfig''))) (sampleInit True))
       (sampleContext (JObj [(''index'', JNum 7)]))) =
     Some (Raised (Boom_badRequest (JStr ''Invalid formConfig'')))
   \<and> serve (\<lambda>s b. case b of JObj kvs \<Rightarrow> True | _ \<Rightarrow> False)
     ''/api/ml/validate/estimate_bucket_span''
     (registered (sampleExternals (Threw (JStr ''Invalid formConfig''))) (sampleInit True))
     (sampleContext (JObj [(''index'', JNum 7)])) = Some 400"
    using estimate_bucket_span_hard_failure
      [where conforms = "\<lambda>s b. case b of JObj kvs \<Rightarrow> True | _ \<Rightarrow> False"
         and ctx = "sampleContext (JObj [(''index'', JNum 7)])"
         and imp = "sampleExternals (Threw (JStr ''Invalid formConfig''))"
         and e = "JStr ''Invalid formConfig''"
         and init = "sampleInit True", THEN conjunct2]
    by simp
  from inst show "map_option fst (runRoute ''/api/ml/validate/estimate_bucket_span''
       (registered (sampleExternals (Threw (JStr ''Invalid formConfig''))) (sampleInit True))
       (sampleContext (JObj [(''index'', JNum 7)]))) =
     Some (Raised (Boom_badRequest (JStr ''Invalid formConfig'')))" by (rule conjunct1)
  from inst show "serve (\<lambda>s b. case b of JObj kvs \<Rightarrow> True | _ \<Rightarrow> False)
     ''/api/ml/validate/estimate_bucket_span''
     (registered (sampleExternals (Threw (JStr ''Invalid formConfig''))) (sampleInit True))
     (sampleContext (JObj [(''index'', JNum 7)])) = Some 400" by (rule conjunct2)
qed

subsection \<open>All five routes\<close>

text \<open>
  Claim C3. The routes registered are exactly the five paths below, in this order, and
  each carries the tag list \<^verbatim>\<open>['access:ml:canCreateJob']\<close> in its options.
\<close>

theorem routes_carry_access_tag:
  "map (\<lambda>r. (path r, tags r)) (registered imp init) =
     [(''/api/ml/validate/estimate_bucket_span'', [''access:ml:canCreateJob'']),
      (''/api/ml/validate/calculate_model_memory_limit'', [''access:ml:canCreateJob'']),
      (''/api/ml/validate/cardinality'', [''access:ml:canCreateJob'']),
      (''/api/ml/validate/job'', [''access:ml:canCreateJob'']),
      (''/api/ml/validate/datafeed_preview'', [''access:ml:canCreateJob''])]"
  by (simp add: registered_eq)

text \<open>
  Claim C4, as stated, fails: the catch branch of the estimate\_bucket\_span handler does
  not return \<^verbatim>\<open>response.customError(wrapError(e))\<close>. With an estimator that throws
  \<^verbatim>\<open>'Invalid formConfig'\<close>, the route's result is not that response.
\<close>

theorem catch_branch_wrapError_counterexample:
  "map_option fst (runRoute ''/api/ml/validate/estimate_bucket_span''
     (registered (sampleExternals (Threw (JStr ''Invalid formConfig''))) (sampleInit True))
     (sampleContext (JNum 7))) \<noteq>
   Some (Returned (response_customError
      (wrapError (sampleExternals (Threw (JStr ''Invalid formConfig'')))
         (JStr ''Invalid formConfig''))))"
  by (simp add: runRoute_registered estimateBucketSpanHandler_def)

text \<open>
  Claim C4, amended. For a request that the licence guard lets through, each of the four
  routes calculate\_model\_memory\_limit, cardinality, job and datafeed\_preview answers
  any error \<open>e\<close> of its \<^verbatim>\<open>try\<close> block (a throw or a rejected promise of the model
  call, or the TypeError of reading a body that is \<^verbatim>\<open>undefined\<close> or \<^verbatim>\<open>null\<close>) with
  \<^verbatim>\<open>response.customError(wrapError(e))\<close>; the catch branch of estimate\_bucket\_span
  throws \<^verbatim>\<open>Boom.badRequest(e)\<close> instead.
\<close>

theorem catch_branch_wrapError:
  assumes licensed: "\<forall>h. fullLicenseAPIGuard (routeGuard init) h ctx = h ctx"
  shows "(failure (fst (calculateModelMemoryLimit imp (client ctx) (mlClient ctx)
                          (requestBody (request ctx)))) = Some e \<longrightarrow>
            map_option fst (runRoute ''/api/ml/validate/calculate_model_memory_limit''
                              (registered imp init) ctx) =
              Some (Returned (response_customError (wrapError imp e))))
       \<and> (failure (validateCardinality imp (client ctx) (requestBody (request ctx))) = Some e \<longrightarrow>
            map_option fst (runRoute ''/api/ml/validate/cardinality'' (registered imp init) ctx) =
              Some (Returned (response_customError (wrapError imp e))))
       \<and> (failure (validateJob imp (client ctx) (mlClient ctx) (requestBody (request ctx))
                      (getAuthorizationHeader imp (request ctx))
                      (isSecurityEnabled (mlLicense init) = False)) = Some e \<longrightarrow>
            map_option fst (runRoute ''/api/ml/validate/job'' (registered imp init) ctx) =
              Some (Returned (response_customError (wrapError imp e))))
       \<and> (failure (if nullish (requestBody (request ctx)) then Threw TypeError
                    else validateDatafeedPreview imp (mlClient ctx)
                           (getAuthorizationHeader imp (request ctx))
                           (getProp (requestBody (request ctx)) ''job'')) = Some e \<longrightarrow>
            map_option fst (runRoute ''/api/ml/validate/datafeed_preview''
                              (registered imp init) ctx) =
              Some (Returned (response_customError (wrapError imp e))))
       \<and> (estimateBucketSpanFactory imp (client ctx) (requestBody (request ctx)) = Threw e \<longrightarrow>
            map_option fst (runRoute ''/api/ml/validate/estimate_bucket_span''
                              (registered imp init) ctx) =
              Some (Raised (Boom_badRequest e)))"
proof -
  have mml: "failure (fst (calculateModelMemoryLimit imp (client ctx) (mlClient ctx)
                          (requestBody (request ctx)))) = Some e \<Longrightarrow>
      fst (calculateModelMemoryLimitHandler imp ctx) =
        Returned (response_customError (wrapError imp e))"
    by (simp add: calculateModelMemoryLimitHandler_def case_prod_beta okOrCustomError_failure)
  have card: "failure (validateCardinality imp (client ctx) (requestBody (request ctx))) = Some e \<Longrightarrow>
      fst (validateCardinalityHandler imp ctx) =
        Returned (response_customError (wrapError imp e))"
    by (simp add: validateCardinalityHandler_def Let_def okOrCustomError_failure)
  have job: "failure (validateJob imp (client ctx) (mlClient ctx) (requestBody (request ctx))
                      (getAuthorizationHeader imp (request ctx))
                      (isSecurityEnabled (mlLicense init) = False)) = Some e \<Longrightarrow>
      fst (validateJobHandler imp (mlLicense init) ctx) =
        Returned (response_customError (wrapError imp e))"
    by (simp add: validateJobHandler_def Let_def okOrCustomError_failure)
  have feed: "failure (if nullish (requestBody (request ctx)) then Threw TypeError
                    else validateDatafeedPreview imp (mlClient ctx)
                           (getAuthorizationHeader imp (request ctx))
                           (getProp (requestBody (request ctx)) ''job'')) = Some e \<Longrightarrow>
      fst (validateDatafeedPreviewHandler imp ctx) =
        Returned (response_customError (wrapError imp e))"
    by (simp add: validateDatafeedPreviewHandler_def Let_def okOrCustomError_failure
        split: if_splits)
  have est: "estimateBucketSpanFactory imp (client ctx) (requestBody (request ctx)) = Threw e \<Longrightarrow>
      fst (estimateBucketSpanHandler imp ctx) = Raised (Boom_badRequest e)"
    by (simp add: estimateBucketSpanHandler_Threw)
  show ?thesis
    using licensed mml card job feed est
    by (simp add: runRoute_registered)
qed

theorem catch_branch_wrapError_witness:
  "map (\<lambda>p. map_option fst (runRoute p
          (registered (sampleExternals (Threw (JStr ''bad''))) (sampleInit True))
          (sampleContext (JObj [(''job'', JObj [])]))))
     [''/api/ml/validate/calculate_model_memory_limit'', ''/api/ml/validate/cardinality'',
      ''/api/ml/validate/job'', ''/api/ml/validate/datafeed_preview'',
      ''/api/ml/validate/estimate_bucket_span''] =
   [Some (Returned \<lparr>status = 500, payload = JStr ''bad''\<rparr>),
    Some (Returned \<lparr>status = 500, payload = JStr ''bad''\<rparr>),
    Some (Returned \<lparr>status = 500, payload = JStr ''bad''\<rparr>),
    Some (Returned \<lparr>status = 500, payload = JStr ''bad''\<rparr>),
    Some (Raised (Boom 400 (JStr ''bad'')))]"
  using catch_branch_wrapError
    [of "sampleInit True" "sampleContext (JObj [(''job'', JObj [])])"
        "sampleExternals (Threw (JStr ''bad''))" "JStr ''bad''"]
  by (simp add: calculateModelMemoryLimit_def nullish_def response_customError_def
      Boom_badRequest_def)

subsection \<open>The calculate\_model\_memory\_limit route\<close>

text \<open>
  Claim C5. A request to POST /api/ml/validate/calculate\_model\_memory\_limit that the
  licence guard lets through, whose body is an object (as every body that passes
  \<^verbatim>\<open>modelMemoryLimitSchema\<close> is: neither \<^verbatim>\<open>undefined\<close> nor \<^verbatim>\<open>null\<close>) and whose
  model call is fulfilled with a result of the shape \<^verbatim>\<open>{modelMemoryLimit: string}\<close>, is
  answered with HTTP 200 and that result as the body, so a body of that shape.
\<close>

theorem model_memory_limit_success:
  assumes object: "\<not> nullish (requestBody (request ctx))"
    and resolved:
      "calculateModelMemoryLimitProvider imp (client ctx) (mlClient ctx)
         (calculateModelMemoryLimitArgs (requestBody (request ctx))) = Resolved resp"
    and shape: "modelMemoryLimitShape resp"
    and licensed: "\<forall>h. fullLicenseAPIGuard (routeGuard init) h ctx = h ctx"
  shows "\<exists>r. map_option fst (runRoute ''/api/ml/validate/calculate_model_memory_limit''
                  (registered imp init) ctx) = Some (Returned r)
             \<and> status r = 200 \<and> payload r = resp \<and> modelMemoryLimitShape (payload r)"
  using licensed object resolved shape
  by (simp add: runRoute_registered calculateModelMemoryLimitHandler_def
      calculateModelMemoryLimit_def okOrCustomError_Resolved response_ok_def)

theorem model_memory_limit_success_witness:
  "map_option fst (runRoute ''/api/ml/validate/calculate_model_memory_limit''
      (registered (sampleExternals (Resolved (JObj [(''modelMemoryLimit'', JStr ''12MB'')])))
         (sampleInit True))
      (sampleContext (JObj [(''indexPattern'', JStr ''logs-*'')]))) =
     Some (Returned \<lparr>status = 200, payload = JObj [(''modelMemoryLimit'', JStr ''12MB'')]\<rparr>)
   \<and> modelMemoryLimitShape (JObj [(''modelMemoryLimit'', JStr ''12MB'')])"
  using model_memory_limit_success
    [of "sampleContext (JObj [(''indexPattern'', JStr ''logs-*'')])"
        "sampleExternals (Resolved (JObj [(''modelMemoryLimit'', JStr ''12MB'')]))"
        "JObj [(''modelMemoryLimit'', JStr ''12MB'')]" "sampleInit True"]
  by (auto simp add: nullish_def)

subsection \<open>The job route\<close>

text \<open>
  Claim C6. The handler of POST /api/ml/validate/job reads
  \<^verbatim>\<open>mlLicense.isSecurityEnabled()\<close>: for a request that the licence guard lets through,
  the model function \<^verbatim>\<open>validateJob\<close> is called with the negation of that flag as its
  last argument, and the response is made from the outcome of that call. Of the five
  registered handlers only this one changes when the licence object does.
\<close>

theorem validate_job_security_flag:
  assumes licensed: "\<forall>h. fullLicenseAPIGuard (routeGuard init) h ctx = h ctx"
  shows "runRoute ''/api/ml/validate/job'' (registered imp init) ctx =
           Some (okOrCustomError imp
                   (validateJob imp (client ctx) (mlClient ctx) (requestBody (request ctx))
                      (getAuthorizationHeader imp (request ctx))
                      (\<not> isSecurityEnabled (mlLicense init))),
                 [ValidateJob (client ctx) (mlClient ctx) (requestBody (request ctx))
                    (getAuthorizationHeader imp (request ctx))
                    (\<not> isSecurityEnabled (mlLicense init))])
       \<and> map handler (registered imp (init\<lparr>mlLicense := lic\<rparr>)) =
           (map handler (registered imp init))
             [3 := fullLicenseAPIGuard (routeGuard init) (validateJobHandler imp lic)]"
proof
  have "runRoute ''/api/ml/validate/job'' (registered imp init) ctx =
      Some (validateJobHandler imp (mlLicense init) ctx)"
    using licensed by (simp add: runRoute_registered)
  then show "runRoute ''/api/ml/validate/job'' (registered imp init) ctx =
           Some (okOrCustomError imp
                   (validateJob imp (client ctx) (mlClient ctx) (requestBody (request ctx))
                      (getAuthorizationHeader imp (request ctx))
                      (\<not> isSecurityEnabled (mlLicense init))),
                 [ValidateJob (client ctx) (mlClient ctx) (requestBody (request ctx))
                    (getAuthorizationHeader imp (request ctx))
                    (\<not> isSecurityEnabled (mlLicense init))])"
    by (simp add: validateJobHandler_def Let_def)
next
  show "map handler (registered imp (init\<lparr>mlLicense := lic\<rparr>)) =
           (map handler (registered imp init))
             [3 := fullLicenseAPIGuard (routeGuard init) (validateJobHandler imp lic)]"
    by (simp add: registered_eq numeral_3_eq_3)
qed

theorem validate_job_security_flag_witness:
  "runRoute ''/api/ml/validate/job''
     (registered
        ((sampleExternals (Resolved JNull))\<lparr>validateJob := \<lambda>c m b auth flag. Resolved (JBool flag)\<rparr>)
        ((sampleInit True)\<lparr>mlLicense := \<lparr>isSecurityEnabled = True\<rparr>\<rparr>))
     (sampleContext (JObj [])) =
     Some (Returned \<lparr>status = 200, payload = JBool False\<rparr>,
           [ValidateJob () () (JObj []) (JObj []) False])
   \<and> runRoute ''/api/ml/validate/job''
     (registered
        ((sampleExternals (Resolved JNull))\<lparr>validateJob := \<lambda>c m b auth flag. Resolved (JBool flag)\<rparr>)
        ((sampleInit True)\<lparr>mlLicense := \<lparr>isSecurityEnabled = False\<rparr>\<rparr>))
     (sampleContext (JObj [])) =
     Some (Returned \<lparr>status = 200, payload = JBool True\<rparr>,
           [ValidateJob () () (JObj []) (JObj []) True])"
proof
  show "runRoute ''/api/ml/validate/job''
     (registered
        ((sampleExternals (Resolved JNull))\<lparr>validateJob := \<lambda>c m b auth flag. Resolved (JBool flag)\<rparr>)
        ((sampleInit True)\<lparr>mlLicense := \<lparr>isSecurityEnabled = True\<rparr>\<rparr>))
     (sampleContext (JObj [])) =
     Some (Returned \<lparr>status = 200, payload = JBool False\<rparr>,
           [ValidateJob () () (JObj []) (JObj []) False])"
    using validate_job_security_flag
      [of "(sampleInit True)\<lparr>mlLicense := \<lparr>isSecurityEnabled = True\<rparr>\<rparr>" "sampleContext (JObj [])"
        "(sampleExternals (Resolved JNull))\<lparr>validateJob := \<lambda>c m b auth flag. Resolved (JBool flag)\<rparr>",
        THEN conjunct1]
    by (simp add: okOrCustomError_Resolved response_ok_def)
next
  show "runRoute ''/api/ml/validate/job''
     (registered
        ((sampleExternals (Resolved JNull))\<lparr>validateJob := \<lambda>c m b auth flag. Resolved (JBool flag)\<rparr>)
        ((sampleInit True)\<lparr>mlLicense := \<lparr>isSecurityEnabled = False\<rparr>\<rparr>))
     (sampleContext (JObj [])) =
     Some (Returned \<lparr>status = 200, payload = JBool True\<rparr>,
           [ValidateJob () () (JObj []) (JObj []) True])"
    using validate_job_security_flag
      [of "(sampleInit True)\<lparr>mlLicense := \<lparr>isSecurityEnabled = False\<rparr>\<rparr>" "sampleContext (JObj [])"
        "(sampleExternals (Resolved JNull))\<lparr>validateJob := \<lambda>c m b auth flag. Resolved (JBool flag)\<rparr>",
        THEN conjunct1]
    by (simp add: okOrCustomError_Resolved response_ok_def)
qed

subsection \<open>Pass-through\<close>

text \<open>
  Claim C7. For a request that the licence guard lets through and whose body \<open>b\<close> is
  an object, each of the five handlers makes exactly one call of a model function,
  whatever the outcome of the call: the estimator on \<open>b\<close>; the model memory limit
  provider on the fields \<^verbatim>\<open>analysisConfig\<close>, \<^verbatim>\<open>indexPattern\<close>, \<^verbatim>\<open>query\<close>,
  \<^verbatim>\<open>timeFieldName\<close>, \<^verbatim>\<open>earliestMs\<close>, \<^verbatim>\<open>latestMs\<close> of \<open>b\<close>, then
  \<^verbatim>\<open>undefined\<close>, then the field \<^verbatim>\<open>datafeedConfig\<close>; \<^verbatim>\<open>validateCardinality\<close> on
  \<open>b\<close>; \<^verbatim>\<open>validateJob\<close> on \<open>b\<close>, the authorization header and the security flag;
  \<^verbatim>\<open>validateDatafeedPreview\<close> on the authorization header and the field \<^verbatim>\<open>job\<close> of
  \<open>b\<close>. When that call is fulfilled with \<open>v\<close>, the response is HTTP 200 with body
  \<open>v\<close>, unmodified.
\<close>

theorem handlers_pass_through:
  assumes licensed: "\<forall>h. fullLicenseAPIGuard (routeGuard init) h ctx = h ctx"
    and object: "\<not> nullish (requestBody (request ctx))"
  shows
    "let b = requestBody (request ctx);
         c = client ctx;
         m = mlClient ctx;
         auth = getAuthorizationHeader imp (request ctx);
         flag = (\<not> isSecurityEnabled (mlLicense init));
         args = [getProp b ''analysisConfig'', getProp b ''indexPattern'', getProp b ''query'',
                 getProp b ''timeFieldName'', getProp b ''earliestMs'', getProp b ''latestMs'',
                 JUndefined, getProp b ''datafeedConfig''];
         rs = registered imp init
     in (map_option snd (runRoute ''/api/ml/validate/estimate_bucket_span'' rs ctx) =
           Some [EstimateBucketSpan c b]
         \<and> (estimateBucketSpanFactory imp c b = Resolved v \<longrightarrow>
              map_option fst (runRoute ''/api/ml/validate/estimate_bucket_span'' rs ctx) =
                Some (Returned \<lparr>status = 200, payload = v\<rparr>)))
      \<and> (map_option snd (runRoute ''/api/ml/validate/calculate_model_memory_limit'' rs ctx) =
           Some [CalculateModelMemoryLimit c m args]
         \<and> (calculateModelMemoryLimitProvider imp c m args = Resolved v \<longrightarrow>
              map_option fst (runRoute ''/api/ml/validate/calculate_model_memory_limit'' rs ctx) =
                Some (Returned \<lparr>status = 200, payload = v\<rparr>)))
      \<and> (map_option snd (runRoute ''/api/ml/validate/cardinality'' rs ctx) =
           Some [ValidateCardinality c b]
         \<and> (validateCardinality imp c b = Resolved v \<longrightarrow>
              map_option fst (runRoute ''/api/ml/validate/cardinality'' rs ctx) =
                Some (Returned \<lparr>status = 200, payload = v\<rparr>)))
      \<and> (map_option snd (runRoute ''/api/ml/validate/job'' rs ctx) =
           Some [ValidateJob c m b auth flag]
         \<and> (validateJob imp c m b auth flag = Resolved v \<longrightarrow>
              map_option fst (runRoute ''/api/ml/validate/job'' rs ctx) =
                Some (Returned \<lparr>status = 200, payload = v\<rparr>)))
      \<and> (map_option snd (runRoute ''/api/ml/validate/datafeed_preview'' rs ctx) =
           Some [ValidateDatafeedPreview m auth (getProp b ''job'')]
         \<and> (validateDatafeedPreview imp m auth (getProp b ''job'') = Resolved v \<longrightarrow>
              map_option fst (runRoute ''/api/ml/validate/datafeed_preview'' rs ctx) =
                Some (Returned \<lparr>status = 200, payload = v\<rparr>)))"
proof -
  let ?b = "requestBody (request ctx)"
  let ?auth = "getAuthorizationHeader imp (request ctx)"
  let ?flag = "\<not> isSecurityEnabled (mlLicense init)"
  let ?args = "[getProp ?b ''analysisConfig'', getProp ?b ''indexPattern'', getProp ?b ''query'',
                 getProp ?b ''timeFieldName'', getProp ?b ''earliestMs'', getProp ?b ''latestMs'',
                 JUndefined, getProp ?b ''datafeedConfig'']"
  have est_calls: "snd (estimateBucketSpanHandler imp ctx) = [EstimateBucketSpan (client ctx) ?b]"
    by (simp add: estimateBucketSpanHandler_def Let_def split: outcome.splits)
  have est_ok: "estimateBucketSpanFactory imp (client ctx) ?b = Resolved v \<Longrightarrow>
      fst (estimateBucketSpanHandler imp ctx) = Returned \<lparr>status = 200, payload = v\<rparr>"
    by (simp add: estimateBucketSpanHandler_Resolved response_ok_def)
  have mml: "calculateModelMemoryLimitHandler imp ctx =
      (okOrCustomError imp (calculateModelMemoryLimitProvider imp (client ctx) (mlClient ctx) ?args),
       [CalculateModelMemoryLimit (client ctx) (mlClient ctx) ?args])"
    using object
    by (simp add: calculateModelMemoryLimitHandler_def calculateModelMemoryLimit_def
        calculateModelMemoryLimitArgs_def)
  have card: "validateCardinalityHandler imp ctx =
      (okOrCustomError imp (validateCardinality imp (client ctx) ?b),
       [ValidateCardinality (client ctx) ?b])"
    by (simp add: validateCardinalityHandler_def Let_def)
  have job: "validateJobHandler imp (mlLicense init) ctx =
      (okOrCustomError imp (validateJob imp (client ctx) (mlClient ctx) ?b ?auth ?flag),
       [ValidateJob (client ctx) (mlClient ctx) ?b ?auth ?flag])"
    by (simp add: validateJobHandler_def Let_def)
  have feed: "validateDatafeedPreviewHandler imp ctx =
      (okOrCustomError imp (validateDatafeedPreview imp (mlClient ctx) ?auth (getProp ?b ''job'')),
       [ValidateDatafeedPreview (mlClient ctx) ?auth (getProp ?b ''job'')])"
    using object
    by (simp add: validateDatafeedPreviewHandler_def Let_def)
  have ok: "\<And>out. out = Resolved v \<Longrightarrow>
      okOrCustomError imp out = Returned \<lparr>status = 200, payload = v\<rparr>"
    by (simp add: okOrCustomError_Resolved response_ok_def)
  show ?thesis
    unfolding Let_def
    using licensed est_calls est_ok
    by (simp add: runRoute_registered mml card job feed ok)
qed

theorem handlers_pass_through_witness:
  "map (\<lambda>p. runRoute p
          (registered (sampleExternals (Resolved (JStr ''result''))) (sampleInit True))
          (sampleContext
             (JObj [(''datafeedConfig'', JNum 1), (''analysisConfig'', JNum 2),
                    (''indexPattern'', JNum 3), (''query'', JNum 4),
                    (''timeFieldName'', JNum 5), (''earliestMs'', JNum 6),
                    (''latestMs'', JNum 7), (''job'', JNum 8)])))
     [''/api/ml/validate/estimate_bucket_span'',
      ''/api/ml/validate/calculate_model_memory_limit'',
      ''/api/ml/validate/cardinality'',
      ''/api/ml/validate/job'',
      ''/api/ml/validate/datafeed_preview''] =
   [Some (Returned \<lparr>status = 200, payload = JStr ''result''\<rparr>,
          [EstimateBucketSpan ()
             (JObj [(''datafeedConfig'', JNum 1), (''analysisConfig'', JNum 2),
                    (''indexPattern'', JNum 3), (''query'', JNum 4),
                    (''timeFieldName'', JNum 5), (''earliestMs'', JNum 6),
                    (''latestMs'', JNum 7), (''job'', JNum 8)])]),
    Some (Returned \<lparr>status = 200, payload = JStr ''result''\<rparr>,
          [CalculateModelMemoryLimit () ()
             [JNum 2, JNum 3, JNum 4, JNum 5, JNum 6, JNum 7, JUndefined, JNum 1]]),
    Some (Returned \<lparr>status = 200, payload = JStr ''result''\<rparr>,
          [ValidateCardinality ()
             (JObj [(''datafeedConfig'', JNum 1), (''analysisConfig'', JNum 2),
                    (''indexPattern'', JNum 3), (''query'', JNum 4),
                    (''timeFieldName'', JNum 5), (''earliestMs'', JNum 6),
                    (''latestMs'', JNum 7), (''job'', JNum 8)])]),
    Some (Returned \<lparr>status = 200, payload = JStr ''result''\<rparr>,
          [ValidateJob () ()
             (JObj [(''datafeedConfig'', JNum 1), (''analysisConfig'', JNum 2),
                    (''indexPattern'', JNum 3), (''query'', JNum 4),
                    (''timeFieldName'', JNum 5), (''earliestMs'', JNum 6),
                    (''latestMs'', JNum 7), (''job'', JNum 8)])
             (JObj []) False]),
    Some (Returned \<lparr>status = 200, payload = JStr ''result''\<rparr>,
          [ValidateDatafeedPreview () (JObj []) (JNum 8)])]"
  using handlers_pass_through
    [where init = "sampleInit True"
       and ctx = "sampleContext
           (JObj [(''datafeedConfig'', JNum 1), (''analysisConfig'', JNum 2),
                  (''indexPattern'', JNum 3), (''query'', JNum 4),
                  (''timeFieldName'', JNum 5), (''earliestMs'', JNum 6),
                  (''latestMs'', JNum 7), (''job'', JNum 8)])"
       and imp = "sampleExternals (Resolved (JStr ''result''))"
       and v = "JStr ''result''"]
  by (auto simp add: nullish_def Let_def prod_eq_iff)

subsection \<open>Rejection against throw in the estimate\_bucket\_span handler\<close>

text \<open>
  Claim C8. In the estimate\_bucket\_span handler, for a request that the licence guard
  lets through: whatever value the estimation promise is rejected with, the answer is
  the HTTP 200 sentinel response; and the handler ends by throwing a Boom error only
  when the estimation call itself threw, before any promise existed, in which case the
  error is \<^verbatim>\<open>Boom.badRequest\<close> of the thrown value.
\<close>

theorem estimate_bucket_span_rejection_or_throw:
  assumes licensed: "\<forall>h. fullLicenseAPIGuard (routeGuard init) h ctx = h ctx"
  shows "(\<forall>cause. estimateBucketSpanFactory imp (client ctx) (requestBody (request ctx)) =
              Rejected cause \<longrightarrow>
            map_option fst (runRoute ''/api/ml/validate/estimate_bucket_span''
                              (registered imp init) ctx) =
              Some (Returned \<lparr>status = 200,
                      payload = JObj [(''error'', JBool True), (''message'', cause)]\<rparr>))
       \<and> (\<forall>b. map_option fst (runRoute ''/api/ml/validate/estimate_bucket_span''
                                 (registered imp init) ctx) = Some (Raised b) \<longrightarrow>
              (\<exists>e. estimateBucketSpanFactory imp (client ctx) (requestBody (request ctx)) =
                     Threw e \<and> b = Boom_badRequest e))"
proof (intro conjI allI impI)
  fix cause
  assume "estimateBucketSpanFactory imp (client ctx) (requestBody (request ctx)) = Rejected cause"
  then show "map_option fst (runRoute ''/api/ml/validate/estimate_bucket_span''
                              (registered imp init) ctx) =
              Some (Returned \<lparr>status = 200,
                      payload = JObj [(''error'', JBool True), (''message'', cause)]\<rparr>)"
    using licensed
    by (simp add: runRoute_registered estimateBucketSpanHandler_Rejected response_ok_def)
next
  fix b
  assume raised: "map_option fst (runRoute ''/api/ml/validate/estimate_bucket_span''
                                 (registered imp init) ctx) = Some (Raised b)"
  then have r: "fst (estimateBucketSpanHandler imp ctx) = Raised b"
    using licensed by (simp add: runRoute_registered)
  show "\<exists>e. estimateBucketSpanFactory imp (client ctx) (requestBody (request ctx)) =
                     Threw e \<and> b = Boom_badRequest e"
  proof (cases "estimateBucketSpanFactory imp (client ctx) (requestBody (request ctx))")
    case (Resolved v)
    with r show ?thesis by (simp add: estimateBucketSpanHandler_Resolved)
  next
    case (Rejected m)
    with r show ?thesis by (simp add: estimateBucketSpanHandler_Rejected)
  next
    case (Threw e)
    with r show ?thesis by (simp add: estimateBucketSpanHandler_Threw)
  qed
qed

theorem estimate_bucket_span_rejection_or_throw_witness:
  "map_option fst (runRoute ''/api/ml/validate/estimate_bucket_span''
      (registered (sampleExternals (Rejected JUndefined)) (sampleInit True))
      (sampleContext (JObj []))) =
     Some (Returned \<lparr>status = 200,
             payload = JObj [(''error'', JBool True), (''message'', JUndefined)]\<rparr>)
   \<and> map_option fst (runRoute ''/api/ml/validate/estimate_bucket_span''
      (registered (sampleExternals (Threw (JStr ''bad''))) (sampleInit True))
      (sampleContext (JObj []))) = Some (Raised (Boom_badRequest (JStr ''bad'')))
   \<and> (\<exists>e. estimateBucketSpanFactory (sampleExternals (Threw (JStr ''bad''))) ()  (JObj []) = Threw e
          \<and> Boom_badRequest (JStr ''bad'') = Boom_badRequest e)"
  using estimate_bucket_span_rejection_or_throw
    [of "sampleInit True" "sampleContext (JObj [])" "sampleExternals (Rejected JUndefined)"]
    estimate_bucket_span_rejection_or_throw
    [of "sampleInit True" "sampleContext (JObj [])" "sampleExternals (Threw (JStr ''bad''))"]
  by (simp add: runRoute_registered estimateBucketSpanHandler_def)

subsection \<open>The licence guard\<close>

text \<open>
  Claim C9. The handler registered for each of the five routes is
  \<^verbatim>\<open>routeGuard.fullLicenseAPIGuard\<close> applied to the handler body. So for a request on
  which the guard gives its own result \<open>refused\<close> whatever handler it wraps (the
  request does not pass the guard), each of the five routes gives exactly that result:
  no handler body contributes to it.
\<close>

theorem handlers_behind_license_guard:
  "map handler (registered imp init) =
     map (fullLicenseAPIGuard (routeGuard init))
       [estimateBucketSpanHandler imp, calculateModelMemoryLimitHandler imp,
        validateCardinalityHandler imp, validateJobHandler imp (mlLicense init),
        validateDatafeedPreviewHandler imp]
   \<and> ((\<forall>h. fullLicenseAPIGuard (routeGuard init) h ctx = refused) \<longrightarrow>
        (\<forall>r \<in> set (registered imp init). handler r ctx = refused))"
  by (simp add: registered_eq)

theorem handlers_behind_license_guard_witness:
  "map (\<lambda>r. handler r (sampleContext (JObj [])))
     (registered (sampleExternals (Resolved (JStr ''result''))) (sampleInit False)) =
   replicate 5 (Returned \<lparr>status = 403, payload = JUndefined\<rparr>, [])"
  using handlers_behind_license_guard
    [of "sampleExternals (Resolved (JStr ''result''))" "sampleInit False"
        "sampleContext (JObj [])" "(Returned \<lparr>status = 403, payload = JUndefined\<rparr>, [])"]
  by (simp add: registered_eq numeral_eq_Suc)

section \<open>Properties of the detection rule\<close>

lemma netshRule_matches_iff:
  "ruleMatches netshRule ev \<longleftrightarrow>
     event_category ev = ''process'' \<and>
     (fieldIn ev EventType [''start'', ''process_started''] \<and>
      fieldLike ev ProcessName ''netsh.exe'' \<and>
      (fieldLike ev ProcessArgs ''disable'' \<and> fieldLike ev ProcessArgs ''firewall'' \<and>
       fieldLike ev ProcessArgs ''set'')
      \<or>
      (fieldLike ev ProcessArgs ''advfirewall'' \<and> fieldLike ev ProcessArgs ''off'' \<and>
       fieldLike ev ProcessArgs ''state''))"
  by (auto simp add: ruleMatches_def netshRule_def)

text \<open>
  Claim C10. With \<^verbatim>\<open>and\<close> binding tighter than \<^verbatim>\<open>or\<close>, the second parenthesised
  group of the query is a disjunct of its own: every process event whose arguments
  contain \<^verbatim>\<open>advfirewall\<close>, \<^verbatim>\<open>off\<close> and \<^verbatim>\<open>state\<close> matches the rule, whatever its
  \<^verbatim>\<open>event.type\<close> and \<^verbatim>\<open>process.name\<close> are, while the rule's description begins
  ``Identifies use of the netsh.exe''. The instance below is such an event of
  \<^verbatim>\<open>cmd.exe\<close>.
\<close>

theorem netsh_rule_matches_other_process:
  assumes "event_category ev = ''process''"
    and "fieldLike ev ProcessArgs ''advfirewall''"
    and "fieldLike ev ProcessArgs ''off''"
    and "fieldLike ev ProcessArgs ''state''"
  shows "ruleMatches netshRule ev
       \<and> take 31 (description netshRule) = ''Identifies use of the netsh.exe''"
proof
  show "ruleMatches netshRule ev"
    using assms by (simp add: netshRule_matches_iff)
next
  show "take 31 (description netshRule) = ''Identifies use of the netsh.exe''"
    by (simp add: netshRule_def)
qed

theorem netsh_rule_matches_other_process_witness:
  "ruleMatches netshRule
     \<lparr>event_category = ''process'', event_type = [''end''], process_name = ''cmd.exe'',
      process_args = [''cmd.exe'', ''/c'', ''echo'', ''advfirewall'', ''state'', ''off'']\<rparr>
   \<and> \<not> fieldLike
     \<lparr>event_category = ''process'', event_type = [''end''], process_name = ''cmd.exe'',
      process_args = [''cmd.exe'', ''/c'', ''echo'', ''advfirewall'', ''state'', ''off'']\<rparr>
     ProcessName ''netsh.exe''"
  using netsh_rule_matches_other_process
    [of "\<lparr>event_category = ''process'', event_type = [''end''], process_name = ''cmd.exe'',
      process_args = [''cmd.exe'', ''/c'', ''echo'', ''advfirewall'', ''state'', ''off'']\<rparr>"]
  by (simp add: fieldLike_def toLower_def)

end
